theory Spec2Isabelle
  imports Complex_Main "HOL-Library.Sublist" "HOL-Library.Log_Nat"
begin

section \<open>The traces table (web/src/components/table/use-cases/traces.tsx)\<close>

text \<open>
  A shallow embedding of the pure parts of the \<^verbatim>\<open>TracesTable\<close> component: the
  derivation of the effective filter, the row transformer, the handlers of the selection
  checkbox, the bulk-action control, the page count and the payload given to the table.

  Conventions. A TypeScript value of type \<^verbatim>\<open>T | null\<close> is a \<open>'a nullable\<close>, one of type
  \<^verbatim>\<open>T | undefined\<close> (an optional field or prop) is a \<open>'a optional\<close>; the two are kept
  apart because the row transformer turns the first into the second. A \<^verbatim>\<open>number\<close>
  that the component only passes on (a latency, a cost) is the \<open>real\<close> of its value; a
  \<^verbatim>\<open>number\<close> that takes part in arithmetic (the pagination) is a \<open>jsnumber\<close>, an
  IEEE 754 double with its rounding, its signed zero, its infinities and NaN.
  A \<^verbatim>\<open>bigint\<close> is an \<open>int\<close>, a \<^verbatim>\<open>Date\<close> is the \<open>int\<close> of its
  milliseconds. Record fields carry a prefix per record (\<open>t_\<close> for the remote trace,
  \<open>row_\<close> for the table row, and so on), since the source reuses field names across
  object types.
\<close>

subsection \<open>Values\<close>

datatype 'a nullable = Null | NonNull 'a

datatype 'a optional = Undefined | Defined 'a

text \<open>\<^verbatim>\<open>a ?? b\<close> with a default of the value's own type, as in \<^verbatim>\<open>trace.name ?? ""\<close>.\<close>

definition nullishOr :: "'a nullable \<Rightarrow> 'a \<Rightarrow> 'a" where
  "nullishOr a b = (case a of Null \<Rightarrow> b | NonNull x \<Rightarrow> x)"

text \<open>\<^verbatim>\<open>a ?? undefined\<close>.\<close>

definition nullishOrUndefined :: "'a nullable \<Rightarrow> 'a optional" where
  "nullishOrUndefined a = (case a of Null \<Rightarrow> Undefined | NonNull x \<Rightarrow> Defined x)"

text \<open>Truthiness of a string: only the empty string is falsy.\<close>

definition truthyString :: "string \<Rightarrow> bool" where
  "truthyString s = (s \<noteq> [])"

subsection \<open>Numbers\<close>

text \<open>
  A \<^verbatim>\<open>number\<close> is an IEEE 754 binary64 value: \<open>Finite x\<close> for a finite double of value
  \<open>x\<close> other than negative zero (so \<open>Finite 0\<close> is \<open>+0\<close>), negative zero, the two
  infinities, or NaN.
\<close>

datatype jsnumber = Finite real | NegZero | PosInfinity | NegInfinity | NaN

text \<open>The integer \<open>L\<close> with \<open>2 ^ L \<le> x < 2 ^ (L + 1)\<close>, for a positive \<open>x\<close>.\<close>

definition ilog2 :: "real \<Rightarrow> int" where
  "ilog2 x = (if 1 \<le> x then bitlen \<lfloor>x\<rfloor> - 1 else - bitlen (\<lceil>1 / x\<rceil> - 1))"

text \<open>Rounding to the nearest integer, a tie going to the even one.\<close>

definition roundHalfEven :: "real \<Rightarrow> int" where
  "roundHalfEven y =
     (if y - of_int \<lfloor>y\<rfloor> < 1 / 2 then \<lfloor>y\<rfloor>
      else if 1 / 2 < y - of_int \<lfloor>y\<rfloor> then \<lfloor>y\<rfloor> + 1
      else if even \<lfloor>y\<rfloor> then \<lfloor>y\<rfloor> else \<lfloor>y\<rfloor> + 1)"

text \<open>
  The exponent of the unit in the last place of the doubles around a positive \<open>a\<close>: 53
  significant bits, and no exponent below that of the subnormal numbers.
\<close>

definition quantumExponent :: "real \<Rightarrow> int" where
  "quantumExponent a = max (ilog2 a - 52) (- 1074)"

text \<open>
  The double of a real number: round to nearest, ties to even. A result of magnitude
  \<open>2 ^ 1024\<close> or more is an infinity, a result of magnitude zero keeps the sign.
\<close>

definition roundDouble :: "real \<Rightarrow> jsnumber" where
  "roundDouble x =
     (if x = 0 then Finite 0
      else
        (let e = quantumExponent \<bar>x\<bar>;
             n = roundHalfEven (\<bar>x\<bar> / 2 powi e);
             m = of_int n * 2 powi e
         in if 2 ^ 1024 \<le> m then (if 0 < x then PosInfinity else NegInfinity)
            else if n = 0 then (if 0 < x then Finite 0 else NegZero)
            else Finite (if 0 < x then m else - m)))"

definition isNegative :: "jsnumber \<Rightarrow> bool" where
  "isNegative a =
     (case a of Finite x \<Rightarrow> x < 0 | NegZero \<Rightarrow> True | PosInfinity \<Rightarrow> False
      | NegInfinity \<Rightarrow> True | NaN \<Rightarrow> False)"

definition isZero :: "jsnumber \<Rightarrow> bool" where
  "isZero a = (a = Finite 0 \<or> a = NegZero)"

definition isInfinite :: "jsnumber \<Rightarrow> bool" where
  "isInfinite a = (a = PosInfinity \<or> a = NegInfinity)"

definition realOf :: "jsnumber \<Rightarrow> real" where
  "realOf a = (case a of Finite x \<Rightarrow> x | _ \<Rightarrow> 0)"

definition signedZero :: "bool \<Rightarrow> jsnumber" where
  "signedZero negative = (if negative then NegZero else Finite 0)"

definition signedInfinity :: "bool \<Rightarrow> jsnumber" where
  "signedInfinity negative = (if negative then NegInfinity else PosInfinity)"

text \<open>
  The operator \<^verbatim>\<open>/\<close> on numbers: the special cases of IEEE 754 first, then the
  rounded quotient of two finite non-zero numbers.
\<close>

definition jsDivide :: "jsnumber \<Rightarrow> jsnumber \<Rightarrow> jsnumber" where
  "jsDivide a b =
     (if a = NaN \<or> b = NaN then NaN
      else if isInfinite a
      then (if isInfinite b then NaN else signedInfinity (isNegative a \<noteq> isNegative b))
      else if isInfinite b then signedZero (isNegative a \<noteq> isNegative b)
      else if isZero b
      then (if isZero a then NaN else signedInfinity (isNegative a \<noteq> isNegative b))
      else if isZero a then signedZero (isNegative a \<noteq> isNegative b)
      else roundDouble (realOf a / realOf b))"

text \<open>\<^verbatim>\<open>Number(n)\<close> of a \<^verbatim>\<open>bigint\<close>: the double nearest to the integer.\<close>

definition numberOfBigInt :: "int \<Rightarrow> jsnumber" where
  "numberOfBigInt n = roundDouble (of_int n)"

text \<open>\<^verbatim>\<open>Math.ceil\<close>; a value between \<open>-1\<close> and zero goes to negative zero.\<close>

fun mathCeil :: "jsnumber \<Rightarrow> jsnumber" where
  "mathCeil (Finite x) = (if \<lceil>x\<rceil> = 0 \<and> x < 0 then NegZero else Finite (of_int \<lceil>x\<rceil>))"
| "mathCeil NegZero = NegZero"
| "mathCeil PosInfinity = PosInfinity"
| "mathCeil NegInfinity = NegInfinity"
| "mathCeil NaN = NaN"

subsection \<open>The remote trace record and the table row\<close>

datatype ObservationLevel = DEBUG | DEFAULT | WARNING | ERROR

text \<open>
  An element of \<^verbatim>\<open>RouterOutput["traces"]["all"]["traces"]\<close>. The type of a score
  (\<^verbatim>\<open>APIScore\<close>) is declared elsewhere and only passed through: it is the parameter
  \<open>'score\<close>.
\<close>

record 'score trace =
  t_bookmarked :: bool
  t_id :: string
  t_timestamp :: int
  t_name :: "string nullable"
  t_level :: ObservationLevel
  t_observationCount :: real
  t_release :: "string nullable"
  t_version :: "string nullable"
  t_userId :: "string nullable"
  t_scores :: "'score list"
  t_sessionId :: "string nullable"
  t_latency :: "real nullable"
  t_tags :: "string list"
  t_promptTokens :: int
  t_completionTokens :: int
  t_totalTokens :: int
  t_calculatedInputCost :: "real nullable"
  t_calculatedOutputCost :: "real nullable"
  t_calculatedTotalCost :: "real nullable"

record usage =
  promptTokens :: int
  completionTokens :: int
  totalTokens :: int

text \<open>
  \<^verbatim>\<open>TracesTableRow\<close>. The fields \<^verbatim>\<open>input\<close>, \<^verbatim>\<open>output\<close> and \<^verbatim>\<open>metadata\<close> are
  never set by the transformer (the cells fetch them), so they are left out.
\<close>

record 'score TracesTableRow =
  row_bookmarked :: bool
  row_id :: string
  row_timestamp :: string
  row_name :: string
  row_userId :: string
  row_level :: ObservationLevel
  row_observationCount :: real
  row_latency :: "real optional"
  row_release :: "string optional"
  row_version :: "string optional"
  row_sessionId :: "string optional"
  row_scores :: "'score list"
  row_tags :: "string list"
  row_usage :: usage
  row_inputCost :: "real optional"
  row_outputCost :: "real optional"
  row_totalCost :: "real optional"

text \<open>
  \<^verbatim>\<open>convertToTableRow\<close> (lines 175-201). \<^verbatim>\<open>Date.prototype.toLocaleString\<close> depends
  on the locale of the browser and is the parameter \<open>toLocaleString\<close>.
\<close>

definition convertToTableRow :: "(int \<Rightarrow> string) \<Rightarrow> 'score trace \<Rightarrow> 'score TracesTableRow" where
  "convertToTableRow toLocaleString trace =
     \<lparr> row_bookmarked = t_bookmarked trace,
       row_id = t_id trace,
       row_timestamp = toLocaleString (t_timestamp trace),
       row_name = nullishOr (t_name trace) '''',
       row_userId = nullishOr (t_userId trace) '''',
       row_level = t_level trace,
       row_observationCount = t_observationCount trace,
       row_latency = (if t_latency trace = Null then Undefined
                      else (case t_latency trace of NonNull x \<Rightarrow> Defined x | Null \<Rightarrow> Undefined)),
       row_release = nullishOrUndefined (t_release trace),
       row_version = nullishOrUndefined (t_version trace),
       row_sessionId = nullishOrUndefined (t_sessionId trace),
       row_scores = t_scores trace,
       row_tags = t_tags trace,
       row_usage = \<lparr> promptTokens = t_promptTokens trace,
                     completionTokens = t_completionTokens trace,
                     totalTokens = t_totalTokens trace \<rparr>,
       row_inputCost = nullishOrUndefined (t_calculatedInputCost trace),
       row_outputCost = nullishOrUndefined (t_calculatedOutputCost trace),
       row_totalCost = nullishOrUndefined (t_calculatedTotalCost trace) \<rparr>"

text \<open>A trace with every nullable field null, used to build concrete inputs.\<close>

definition blankTrace :: "unit trace" where
  "blankTrace =
     \<lparr> t_bookmarked = False, t_id = ''t1'', t_timestamp = 0, t_name = Null,
       t_level = DEFAULT, t_observationCount = 0, t_release = Null, t_version = Null,
       t_userId = Null, t_scores = [], t_sessionId = Null, t_latency = Null, t_tags = [],
       t_promptTokens = 0, t_completionTokens = 0, t_totalTokens = 0,
       t_calculatedInputCost = Null, t_calculatedOutputCost = Null,
       t_calculatedTotalCost = Null \<rparr>"

subsection \<open>Filter, order and pagination state; the query descriptor\<close>

datatype filterValue =
    StringValue string
  | NumberValue real
  | DatetimeValue int
  | BooleanValue bool
  | StringOptionsValue "string list"

text \<open>One predicate of a \<^verbatim>\<open>FilterState\<close>: \<^verbatim>\<open>{column, type, operator, value}\<close>.\<close>

record filterCondition =
  f_column :: string
  f_type :: string
  f_operator :: string
  f_value :: filterValue

type_synonym FilterState = "filterCondition list"

datatype orderDirection = ASC | DESC

record orderByState =
  ob_column :: string
  ob_order :: orderDirection

record paginationState =
  pageIndex :: jsnumber
  pageSize :: jsnumber

text \<open>
  \<^verbatim>\<open>userIdFilter\<close> (lines 111-120). The condition \<^verbatim>\<open>userId ? [...] : []\<close> tests the
  truthiness of the optional prop: an absent user id and the empty string both give the
  empty list.
\<close>

definition userIdFilter :: "string optional \<Rightarrow> FilterState" where
  "userIdFilter userId =
     (case userId of
        Undefined \<Rightarrow> []
      | Defined u \<Rightarrow>
          (if truthyString u
           then [\<lparr> f_column = ''User ID'', f_type = ''string'', f_operator = ''='',
                   f_value = StringValue u \<rparr>]
           else []))"

text \<open>\<^verbatim>\<open>filterState = userFilterState.concat(userIdFilter)\<close> (line 122).\<close>

definition filterState :: "FilterState \<Rightarrow> string optional \<Rightarrow> FilterState" where
  "filterState userFilterState userId = userFilterState @ userIdFilter userId"

text \<open>\<^verbatim>\<open>tracesAllQueryFilter\<close> (lines 127-134), the argument of \<^verbatim>\<open>api.traces.all.useQuery\<close>.\<close>

record tracesAllQuery =
  q_page :: jsnumber
  q_limit :: jsnumber
  q_projectId :: string
  q_filter :: FilterState
  q_searchQuery :: "string nullable"
  q_orderBy :: orderByState

definition tracesAllQueryFilter ::
  "paginationState \<Rightarrow> string \<Rightarrow> FilterState \<Rightarrow> string nullable \<Rightarrow> orderByState \<Rightarrow> tracesAllQuery" where
  "tracesAllQueryFilter pagination projectId flt searchQuery orderBy =
     \<lparr> q_page = pageIndex pagination,
       q_limit = pageSize pagination,
       q_projectId = projectId,
       q_filter = flt,
       q_searchQuery = searchQuery,
       q_orderBy = orderBy \<rparr>"

subsection \<open>The result of the listing query\<close>

record 'score tracesAllOutput =
  out_traces :: "'score trace list"
  out_totalCount :: int

record trpcError =
  e_message :: string

text \<open>
  What \<^verbatim>\<open>api.traces.all.useQuery\<close> returns, as far as the component reads it: the three
  status flags, the data and the error.
\<close>

record 'score tracesQueryResult =
  isLoading :: bool
  isError :: bool
  isSuccess :: bool
  res_data :: "'score tracesAllOutput optional"
  res_error :: "trpcError nullable"

text \<open>
  The result type of the fetch library is a union discriminated by the status: exactly one
  of the three flags is set, an error result carries its error and a success result its
  data. The TypeScript of lines 662-674 type-checks by this narrowing.
\<close>

definition wellFormedResult :: "'score tracesQueryResult \<Rightarrow> bool" where
  "wellFormedResult q =
     ((isLoading q \<or> isError q \<or> isSuccess q) \<and>
      \<not> (isLoading q \<and> isError q) \<and> \<not> (isLoading q \<and> isSuccess q) \<and>
      \<not> (isError q \<and> isSuccess q) \<and>
      (\<not> isError q \<or> res_error q \<noteq> Null) \<and>
      (\<not> isSuccess q \<or> res_data q \<noteq> Undefined))"

text \<open>\<^verbatim>\<open>totalCount = traces.data?.totalCount ?? 0\<close> (line 137).\<close>

definition totalCount :: "'score tracesQueryResult \<Rightarrow> int" where
  "totalCount traces = (case res_data traces of Undefined \<Rightarrow> 0 | Defined d \<Rightarrow> out_totalCount d)"

subsection \<open>Filter options\<close>

text \<open>
  A column definition of \<^verbatim>\<open>tracesTableColsWithOptions\<close>; the function and the type are
  declared in the shared package, so the function is a parameter and the record is open
  to further fields.
\<close>

record columnDefinition =
  col_name :: string
  col_id :: string
  col_type :: string

text \<open>The prop \<^verbatim>\<open>omittedFilter = []\<close> with its default (line 85).\<close>

definition omittedFilterOrDefault :: "string list optional \<Rightarrow> string list" where
  "omittedFilterOrDefault omittedFilter = (case omittedFilter of Undefined \<Rightarrow> [] | Defined l \<Rightarrow> l)"

text \<open>\<^verbatim>\<open>transformFilterOptions\<close> (lines 167-173).\<close>

definition transformFilterOptions ::
  "('opts optional \<Rightarrow> 'c columnDefinition_scheme list) \<Rightarrow> string list \<Rightarrow> 'opts optional
     \<Rightarrow> 'c columnDefinition_scheme list" where
  "transformFilterOptions tracesTableColsWithOptions omittedFilter traceFilterOptions =
     filter (\<lambda>c. \<not> (col_name c \<in> set omittedFilter)) (tracesTableColsWithOptions traceFilterOptions)"

subsection \<open>Row selection\<close>

text \<open>
  \<^verbatim>\<open>RowSelectionState\<close> is an object from row ids to booleans; it is the list of its
  entries in the order of \<^verbatim>\<open>Object.keys\<close>, and \<^verbatim>\<open>{}\<close> is the empty list.
\<close>

type_synonym RowSelectionState = "(string \<times> bool) list"

definition objectKeys :: "RowSelectionState \<Rightarrow> string list" where
  "objectKeys selectedRows = map fst selectedRows"

text \<open>
  A call of a \<^verbatim>\<open>useState\<close> setter: with a new value or with an updater function.
  The calls made during one event handler are applied to the state in the order they
  were made.
\<close>

datatype 'a setStateAction = SetValue 'a | SetUpdater "'a \<Rightarrow> 'a"

fun applySetState :: "'a \<Rightarrow> 'a setStateAction \<Rightarrow> 'a" where
  "applySetState s (SetValue v) = v"
| "applySetState s (SetUpdater f) = f s"

definition applySetStates :: "'a setStateAction list \<Rightarrow> 'a \<Rightarrow> 'a" where
  "applySetStates actions s = foldl applySetState s actions"

text \<open>The argument of \<^verbatim>\<open>onCheckedChange\<close>: \<^verbatim>\<open>boolean | "indeterminate"\<close>.\<close>

datatype CheckedState = CheckedBool bool | Indeterminate

definition truthyChecked :: "CheckedState \<Rightarrow> bool" where
  "truthyChecked v = (case v of CheckedBool b \<Rightarrow> b | Indeterminate \<Rightarrow> True)"

text \<open>
  The \<^verbatim>\<open>onCheckedChange\<close> handler of the header checkbox (lines 218-223). The method
  \<^verbatim>\<open>table.toggleAllPageRowsSelected\<close> belongs to the table library; the parameter
  stands for the setter calls it makes on the selection state. The result is the list of
  all setter calls of the handler, in order.
\<close>

definition headerOnCheckedChange ::
  "(bool \<Rightarrow> RowSelectionState setStateAction list) \<Rightarrow> CheckedState
     \<Rightarrow> RowSelectionState setStateAction list" where
  "headerOnCheckedChange toggleAllPageRowsSelected v =
     toggleAllPageRowsSelected (truthyChecked v) @
     (if \<not> truthyChecked v then [SetValue []] else [])"

text \<open>
  The order of the keys of an object: the array indices (the decimal numerals of the
  integers below \<open>2 ^ 32 - 1\<close>, without leading zeros) in ascending order, then the other
  keys in the order of their creation. \<open>objectSet\<close> is the assignment
  \<^verbatim>\<open>obj[key] = value\<close>.
\<close>

definition isDigit :: "char \<Rightarrow> bool" where
  "isDigit c = (c \<in> set ''0123456789'')"

definition decimalValue :: "string \<Rightarrow> nat" where
  "decimalValue s = foldl (\<lambda>n c. 10 * n + (of_char c - 48)) 0 s"

definition arrayIndex :: "string \<Rightarrow> nat option" where
  "arrayIndex s =
     (if s \<noteq> [] \<and> list_all isDigit s \<and> (hd s \<noteq> CHR ''0'' \<or> length s = 1) \<and>
         decimalValue s < 2 ^ 32 - 1
      then Some (decimalValue s) else None)"

definition indexBelow :: "nat \<Rightarrow> string \<times> bool \<Rightarrow> bool" where
  "indexBelow i kv = (case arrayIndex (fst kv) of None \<Rightarrow> False | Some j \<Rightarrow> j < i)"

definition objectSet :: "RowSelectionState \<Rightarrow> string \<Rightarrow> bool \<Rightarrow> RowSelectionState" where
  "objectSet obj k v =
     (if k \<in> set (objectKeys obj) then map (\<lambda>kv. if fst kv = k then (k, v) else kv) obj
      else (case arrayIndex k of
              None \<Rightarrow> obj @ [(k, v)]
            | Some i \<Rightarrow> takeWhile (indexBelow i) obj @ [(k, v)] @ dropWhile (indexBelow i) obj))"

text \<open>
  The page-wide toggle as the table library performs it, for comparison: selecting sets
  the ids of the page in a copy of the selection, deselecting deletes exactly the ids of
  the page from it.
\<close>

definition togglePageRows :: "string list \<Rightarrow> bool \<Rightarrow> RowSelectionState setStateAction list" where
  "togglePageRows pageIds v =
     [SetUpdater (\<lambda>old.
        if v then foldl (\<lambda>obj i. objectSet obj i True) old pageIds
        else filter (\<lambda>kv. fst kv \<notin> set pageIds) old)]"

subsection \<open>The bulk-action control\<close>

text \<open>
  \<^verbatim>\<open>traces.data?.traces.map((t) => t.id).includes(traceId)\<close> (lines 640 and 645);
  with no data the optional chain is undefined, which the filter takes as false.
\<close>

definition currentPageIncludes :: "'score tracesQueryResult \<Rightarrow> string \<Rightarrow> bool" where
  "currentPageIncludes traces traceId =
     (case res_data traces of
        Undefined \<Rightarrow> False
      | Defined d \<Rightarrow> traceId \<in> set (map t_id (out_traces d)))"

definition selectedTraceIds :: "RowSelectionState \<Rightarrow> 'score tracesQueryResult \<Rightarrow> string list" where
  "selectedTraceIds selectedRows traces =
     filter (currentPageIncludes traces) (objectKeys selectedRows)"

text \<open>The props of \<^verbatim>\<open>TraceTableMultiSelectAction\<close> that carry data.\<close>

record multiSelectAction =
  ms_selectedTraceIds :: "string list"
  ms_projectId :: string

text \<open>The \<^verbatim>\<open>actionButtons\<close> prop (lines 638-653): the control or \<^verbatim>\<open>null\<close>.\<close>

definition actionButtons ::
  "RowSelectionState \<Rightarrow> 'score tracesQueryResult \<Rightarrow> string \<Rightarrow> multiSelectAction nullable" where
  "actionButtons selectedRows traces projectId =
     (if length (selectedTraceIds selectedRows traces) > 0
      then NonNull \<lparr> ms_selectedTraceIds = selectedTraceIds selectedRows traces,
                      ms_projectId = projectId \<rparr>
      else Null)"

subsection \<open>The page count\<close>

text \<open>
  \<^verbatim>\<open>Math.ceil(Number(totalCount) / paginationState.pageSize)\<close> (line 677), with the
  total count an integer and the page size any number.
\<close>

definition pageCount :: "int \<Rightarrow> paginationState \<Rightarrow> jsnumber" where
  "pageCount totalCnt pagination =
     mathCeil (jsDivide (numberOfBigInt totalCnt) (pageSize pagination))"

subsection \<open>The payload of the table\<close>

text \<open>The \<^verbatim>\<open>data\<close> prop of \<^verbatim>\<open>DataTable\<close>: two flags, and the rows or the message.\<close>

record 'row asyncTableData =
  d_isLoading :: bool
  d_isError :: bool
  d_data :: "'row list optional"
  d_error :: "string optional"

datatype exn = TypeError

text \<open>
  The \<^verbatim>\<open>data\<close> prop (lines 661-675). Reading \<^verbatim>\<open>.message\<close> of a null error or
  \<^verbatim>\<open>.traces\<close> of undefined data throws a TypeError.
\<close>

definition tableData ::
  "(int \<Rightarrow> string) \<Rightarrow> 'score tracesQueryResult \<Rightarrow> exn + 'score TracesTableRow asyncTableData" where
  "tableData toLocaleString traces =
     (if isLoading traces
      then Inr \<lparr> d_isLoading = True, d_isError = False, d_data = Undefined, d_error = Undefined \<rparr>
      else if isError traces
      then (case res_error traces of
              Null \<Rightarrow> Inl TypeError
            | NonNull e \<Rightarrow>
                Inr \<lparr> d_isLoading = False, d_isError = True, d_data = Undefined,
                      d_error = Defined (e_message e) \<rparr>)
      else (case res_data traces of
              Undefined \<Rightarrow> Inl TypeError
            | Defined d \<Rightarrow>
                Inr \<lparr> d_isLoading = False, d_isError = False,
                      d_data = Defined (map (convertToTableRow toLocaleString) (out_traces d)),
                      d_error = Undefined \<rparr>))"

subsection \<open>The latency cell\<close>

text \<open>
  The cell renderer of the latency column (lines 335-338); \<^verbatim>\<open>row.getValue("latency")\<close>
  reads the field named by the accessor key. \<^verbatim>\<open>formatIntervalSeconds\<close> is imported
  from the date utilities and is a parameter. An undefined result is an empty cell.
\<close>

definition latencyCell :: "(real \<Rightarrow> 'node) \<Rightarrow> 'score TracesTableRow \<Rightarrow> 'node optional" where
  "latencyCell formatIntervalSeconds row =
     (case row_latency row of
        Undefined \<Rightarrow> Undefined
      | Defined v \<Rightarrow> Defined (formatIntervalSeconds v))"

subsection \<open>The component\<close>

text \<open>\<^verbatim>\<open>TracesTableProps\<close> (lines 74-78).\<close>

record props =
  p_projectId :: string
  p_userId :: "string optional"
  p_omittedFilter :: "string list optional"

text \<open>
  What the hooks of the component return in one render: the selection, the search query,
  the filter list edited by the user, the order, the pagination, the result of the listing
  query and the data of the filter-options query.
\<close>

record ('score, 'opts) hooks =
  selectedRows :: RowSelectionState
  searchQuery :: "string nullable"
  userFilterState :: FilterState
  orderByHook :: orderByState
  paginationHook :: paginationState
  traces :: "'score tracesQueryResult"
  traceFilterOptionsData :: "'opts optional"

text \<open>The query descriptor given to \<^verbatim>\<open>api.traces.all.useQuery\<close> (line 135).\<close>

definition listingQuery :: "props \<Rightarrow> ('score, 'opts) hooks \<Rightarrow> tracesAllQuery" where
  "listingQuery p h =
     tracesAllQueryFilter (paginationHook h) (p_projectId p)
       (filterState (userFilterState h) (p_userId p)) (searchQuery h) (orderByHook h)"

text \<open>The data props of \<^verbatim>\<open>DataTableToolbar\<close> (lines 628-658).\<close>

record 'c toolbarProps =
  tb_filterColumnDefinition :: "'c columnDefinition_scheme list"
  tb_currentQuery :: "string optional"
  tb_filterState :: FilterState
  tb_actionButtons :: "multiSelectAction nullable"

definition dataTableToolbar ::
  "('opts optional \<Rightarrow> 'c columnDefinition_scheme list) \<Rightarrow> props \<Rightarrow> ('score, 'opts) hooks
     \<Rightarrow> 'c toolbarProps" where
  "dataTableToolbar tracesTableColsWithOptions p h =
     \<lparr> tb_filterColumnDefinition =
         transformFilterOptions tracesTableColsWithOptions
           (omittedFilterOrDefault (p_omittedFilter p)) (traceFilterOptionsData h),
       tb_currentQuery = nullishOrUndefined (searchQuery h),
       tb_filterState = userFilterState h,
       tb_actionButtons = actionButtons (selectedRows h) (traces h) (p_projectId p) \<rparr>"

text \<open>The data props of \<^verbatim>\<open>DataTable\<close> (lines 659-688); building them may throw.\<close>

record 'score tableProps =
  tbl_data :: "'score TracesTableRow asyncTableData"
  tbl_pageCount :: jsnumber
  tbl_paginationState :: paginationState
  tbl_orderBy :: orderByState
  tbl_rowSelection :: RowSelectionState

definition dataTable ::
  "(int \<Rightarrow> string) \<Rightarrow> ('score, 'opts) hooks \<Rightarrow> exn + 'score tableProps" where
  "dataTable toLocaleString h =
     (case tableData toLocaleString (traces h) of
        Inl e \<Rightarrow> Inl e
      | Inr d \<Rightarrow>
          Inr \<lparr> tbl_data = d,
                tbl_pageCount = pageCount (totalCount (traces h)) (paginationHook h),
                tbl_paginationState = paginationHook h,
                tbl_orderBy = orderByHook h,
                tbl_rowSelection = selectedRows h \<rparr>)"

text \<open>Concrete values used to build inputs.\<close>

definition loadingResult :: "unit tracesQueryResult" where
  "loadingResult =
     \<lparr> isLoading = True, isError = False, isSuccess = False, res_data = Undefined,
       res_error = Null \<rparr>"

definition successResult :: "unit trace list \<Rightarrow> int \<Rightarrow> unit tracesQueryResult" where
  "successResult ts n =
     \<lparr> isLoading = False, isError = False, isSuccess = True,
       res_data = Defined \<lparr> out_traces = ts, out_totalCount = n \<rparr>, res_error = Null \<rparr>"

definition errorResult :: "string \<Rightarrow> unit tracesQueryResult" where
  "errorResult m =
     \<lparr> isLoading = False, isError = True, isSuccess = False, res_data = Undefined,
       res_error = NonNull \<lparr> e_message = m \<rparr> \<rparr>"

definition someHooks :: "FilterState \<Rightarrow> RowSelectionState \<Rightarrow> real \<Rightarrow> unit tracesQueryResult \<Rightarrow> (unit, unit) hooks" where
  "someHooks F S ps q =
     \<lparr> selectedRows = S, searchQuery = Null, userFilterState = F,
       orderByHook = \<lparr> ob_column = ''timestamp'', ob_order = DESC \<rparr>,
       paginationHook = \<lparr> pageIndex = Finite 0, pageSize = Finite ps \<rparr>,
       traces = q, traceFilterOptionsData = Undefined \<rparr>"

definition timestampCondition :: filterCondition where
  "timestampCondition =
     \<lparr> f_column = ''Timestamp'', f_type = ''datetime'', f_operator = ''>'',
       f_value = DatetimeValue 0 \<rparr>"

section \<open>Properties\<close>

subsection \<open>Row transformation\<close>

text \<open>
  Claim C2. For every remote trace record, the latency of the transformed row is undefined
  if and only if the record's latency is null, and every non-null latency, zero included,
  is passed through unchanged.
\<close>

theorem convertToTableRow_latency:
  "(row_latency (convertToTableRow fmt r) = Undefined \<longleftrightarrow> t_latency r = Null) \<and>
   (\<forall>x. t_latency r = NonNull x \<longrightarrow> row_latency (convertToTableRow fmt r) = Defined x) \<and>
   (t_latency r = NonNull 0 \<longrightarrow> row_latency (convertToTableRow fmt r) = Defined 0)"
  by (cases "t_latency r") (simp_all add: convertToTableRow_def)

theorem convertToTableRow_latency_witness:
  "t_latency (blankTrace\<lparr>t_latency := NonNull 0\<rparr>) = NonNull 0 \<and>
   row_latency (convertToTableRow (\<lambda>d. ''date'') (blankTrace\<lparr>t_latency := NonNull 0\<rparr>)) = Defined 0 \<and>
   row_latency (convertToTableRow (\<lambda>d. ''date'') (blankTrace\<lparr>t_latency := NonNull 0\<rparr>)) \<noteq> Undefined"
  using convertToTableRow_latency [of "\<lambda>d. ''date''" "blankTrace\<lparr>t_latency := NonNull 0\<rparr>"]
  by (simp add: blankTrace_def)

text \<open>
  Claim C3. For each of the fields release, version and sessionId, the transformed row's
  field is undefined when the record's field is null and equals the record's field when
  it is not null.
\<close>

theorem convertToTableRow_optional_scalars:
  "(t_release r = Null \<longrightarrow> row_release (convertToTableRow fmt r) = Undefined) \<and>
   (\<forall>s. t_release r = NonNull s \<longrightarrow> row_release (convertToTableRow fmt r) = Defined s) \<and>
   (t_version r = Null \<longrightarrow> row_version (convertToTableRow fmt r) = Undefined) \<and>
   (\<forall>s. t_version r = NonNull s \<longrightarrow> row_version (convertToTableRow fmt r) = Defined s) \<and>
   (t_sessionId r = Null \<longrightarrow> row_sessionId (convertToTableRow fmt r) = Undefined) \<and>
   (\<forall>s. t_sessionId r = NonNull s \<longrightarrow> row_sessionId (convertToTableRow fmt r) = Defined s)"
  by (simp add: convertToTableRow_def nullishOrUndefined_def)

theorem convertToTableRow_optional_scalars_witness:
  "row_release (convertToTableRow (\<lambda>d. ''date'')
      (blankTrace\<lparr>t_release := NonNull ''v1.2'', t_sessionId := NonNull ''s-7''\<rparr>)) = Defined ''v1.2'' \<and>
   row_version (convertToTableRow (\<lambda>d. ''date'')
      (blankTrace\<lparr>t_release := NonNull ''v1.2'', t_sessionId := NonNull ''s-7''\<rparr>)) = Undefined \<and>
   row_sessionId (convertToTableRow (\<lambda>d. ''date'')
      (blankTrace\<lparr>t_release := NonNull ''v1.2'', t_sessionId := NonNull ''s-7''\<rparr>)) = Defined ''s-7''"
  using convertToTableRow_optional_scalars [of
      "blankTrace\<lparr>t_release := NonNull ''v1.2'', t_sessionId := NonNull ''s-7''\<rparr>" "\<lambda>d. ''date''"]
  by (simp add: blankTrace_def)

text \<open>
  Claim C10. A null name and a null userId become the empty string in the transformed row
  (whose name and userId fields have the type of strings, with no undefined value); a
  non-null name or userId is kept.
\<close>

theorem convertToTableRow_name_userId:
  "(t_name r = Null \<longrightarrow> row_name (convertToTableRow fmt r) = '''') \<and>
   (t_userId r = Null \<longrightarrow> row_userId (convertToTableRow fmt r) = '''') \<and>
   (\<forall>s. t_name r = NonNull s \<longrightarrow> row_name (convertToTableRow fmt r) = s) \<and>
   (\<forall>s. t_userId r = NonNull s \<longrightarrow> row_userId (convertToTableRow fmt r) = s)"
  by (simp add: convertToTableRow_def nullishOr_def)

theorem convertToTableRow_name_userId_witness:
  "t_name (blankTrace\<lparr>t_userId := NonNull ''u-1''\<rparr>) = Null \<and>
   row_name (convertToTableRow (\<lambda>d. ''date'') (blankTrace\<lparr>t_userId := NonNull ''u-1''\<rparr>)) = '''' \<and>
   row_userId (convertToTableRow (\<lambda>d. ''date'') (blankTrace\<lparr>t_userId := NonNull ''u-1''\<rparr>)) = ''u-1''"
  using convertToTableRow_name_userId [of "blankTrace\<lparr>t_userId := NonNull ''u-1''\<rparr>" "\<lambda>d. ''date''"]
  by (simp add: blankTrace_def)

subsection \<open>The effective filter\<close>

text \<open>
  Claim C1, as amended. The filter of the query descriptor sent to the listing query is the
  filter list edited by the user followed by exactly one predicate
  \<^verbatim>\<open>{column: "User ID", type: "string", operator: "=", value: U}\<close> when a user id \<open>U\<close>
  is provided and is not the empty string, and is the user's filter list alone when the
  user id is absent or the empty string. The filter state handed to the toolbar is the
  user's filter list, whatever the user id.
\<close>

theorem effective_filter:
  "q_filter (listingQuery p h) =
     userFilterState h @
       (case p_userId p of
          Undefined \<Rightarrow> []
        | Defined u \<Rightarrow>
            if u = '''' then []
            else [\<lparr> f_column = ''User ID'', f_type = ''string'', f_operator = ''='',
                    f_value = StringValue u \<rparr>]) \<and>
   tb_filterState (dataTableToolbar cols p h) = userFilterState h"
  by (simp add: listingQuery_def tracesAllQueryFilter_def filterState_def userIdFilter_def
      truthyString_def dataTableToolbar_def split: optional.split)

theorem effective_filter_witness:
  "q_filter (listingQuery \<lparr> p_projectId = ''p1'', p_userId = Defined ''u-1'', p_omittedFilter = Undefined \<rparr>
       (someHooks [timestampCondition] [] 50 loadingResult))
     = [timestampCondition,
        \<lparr> f_column = ''User ID'', f_type = ''string'', f_operator = ''='', f_value = StringValue ''u-1'' \<rparr>] \<and>
   q_filter (listingQuery \<lparr> p_projectId = ''p1'', p_userId = Undefined, p_omittedFilter = Undefined \<rparr>
       (someHooks [timestampCondition] [] 50 loadingResult))
     = [timestampCondition] \<and>
   tb_filterState (dataTableToolbar (\<lambda>opts. [] :: columnDefinition list)
       \<lparr> p_projectId = ''p1'', p_userId = Defined ''u-1'', p_omittedFilter = Undefined \<rparr>
       (someHooks [timestampCondition] [] 50 loadingResult))
     = [timestampCondition]"
  using effective_filter [of "\<lparr> p_projectId = ''p1'', p_userId = Defined ''u-1'', p_omittedFilter = Undefined \<rparr>"
      "someHooks [timestampCondition] [] 50 loadingResult" "\<lambda>opts. [] :: columnDefinition list"]
    effective_filter [of "\<lparr> p_projectId = ''p1'', p_userId = Undefined, p_omittedFilter = Undefined \<rparr>"
      "someHooks [timestampCondition] [] 50 loadingResult" "\<lambda>opts. [] :: columnDefinition list"]
  by (simp add: someHooks_def)

text \<open>
  Claim C1 as first stated, with the predicate appended whenever a user id is provided,
  fails for the empty string: the guard \<^verbatim>\<open>userId ? ... : []\<close> is a truthiness test.
\<close>

theorem effective_filter_counterexample:
  "q_filter (listingQuery \<lparr> p_projectId = ''p1'', p_userId = Defined '''', p_omittedFilter = Undefined \<rparr>
       (someHooks [timestampCondition] [] 50 loadingResult))
   \<noteq> [timestampCondition] @
       [\<lparr> f_column = ''User ID'', f_type = ''string'', f_operator = ''='', f_value = StringValue '''' \<rparr>]"
  by (simp add: listingQuery_def tracesAllQueryFilter_def filterState_def userIdFilter_def
      truthyString_def someHooks_def)

subsection \<open>Selection\<close>

text \<open>
  Claim C4. Whatever the prior selection and whatever the table's page-wide toggle does to
  it, unchecking the header checkbox leaves the empty selection; the second fact below shows
  on an example that the page-wide toggle alone would have kept the ids of other pages.
\<close>

theorem header_uncheck:
  "applySetStates (headerOnCheckedChange toggleAllPageRowsSelected (CheckedBool False)) S = []"
  by (simp add: applySetStates_def headerOnCheckedChange_def truthyChecked_def)

theorem header_uncheck_witness:
  "applySetStates (headerOnCheckedChange (togglePageRows [''a'', ''b'']) (CheckedBool False))
     [(''a'', True), (''x'', True)] = [] \<and>
   applySetStates (togglePageRows [''a'', ''b''] False) [(''a'', True), (''x'', True)] = [(''x'', True)]"
  using header_uncheck [of "togglePageRows [''a'', ''b'']" "[(''a'', True), (''x'', True)]"]
  by (simp add: applySetStates_def togglePageRows_def)

lemma togglePageRows_key_order:
  "applySetStates (togglePageRows [''10'', ''2'', ''c''] True) [(''b'', True)] =
     [(''2'', True), (''10'', True), (''b'', True), (''c'', True)]"
  by (simp add: applySetStates_def togglePageRows_def objectSet_def objectKeys_def arrayIndex_def
      indexBelow_def isDigit_def decimalValue_def)

text \<open>
  Claim C5. For every selection and every loaded page, the bulk-action control is rendered
  if and only if some key of the selection is an id of the page, and the ids given to the
  control are exactly the keys of the selection that are ids of the page, in the order of
  the keys and without repetition.
\<close>

theorem bulk_action:
  assumes "res_data q = Defined d"
  shows "(actionButtons S q pid \<noteq> Null \<longleftrightarrow> set (objectKeys S) \<inter> set (map t_id (out_traces d)) \<noteq> {}) \<and>
    (\<forall>a. actionButtons S q pid = NonNull a \<longrightarrow>
       set (ms_selectedTraceIds a) = set (objectKeys S) \<inter> set (map t_id (out_traces d)) \<and>
       subseq (ms_selectedTraceIds a) (objectKeys S) \<and>
       (distinct (objectKeys S) \<longrightarrow> distinct (ms_selectedTraceIds a)))"
proof -
  have ids: "selectedTraceIds S q = filter (\<lambda>k. k \<in> set (map t_id (out_traces d))) (objectKeys S)"
    using assms by (simp add: selectedTraceIds_def currentPageIncludes_def cong: filter_cong)
  have s: "set (selectedTraceIds S q) = set (objectKeys S) \<inter> set (map t_id (out_traces d))"
    unfolding ids by auto
  have "selectedTraceIds S q \<noteq> [] \<longleftrightarrow> set (objectKeys S) \<inter> set (map t_id (out_traces d)) \<noteq> {}"
    using s by (metis set_empty)
  moreover have "subseq (selectedTraceIds S q) (objectKeys S)"
    unfolding ids by simp
  moreover have "distinct (objectKeys S) \<Longrightarrow> distinct (selectedTraceIds S q)"
    unfolding ids by simp
  ultimately show ?thesis
    using s by (auto simp: actionButtons_def)
qed

theorem bulk_action_witness:
  "res_data (successResult [blankTrace, blankTrace\<lparr>t_id := ''t2''\<rparr>] 101) =
     Defined \<lparr> out_traces = [blankTrace, blankTrace\<lparr>t_id := ''t2''\<rparr>], out_totalCount = 101 \<rparr> \<and>
   actionButtons [(''t9'', True), (''t2'', True)]
     (successResult [blankTrace, blankTrace\<lparr>t_id := ''t2''\<rparr>] 101) ''p1''
     = NonNull \<lparr> ms_selectedTraceIds = [''t2''], ms_projectId = ''p1'' \<rparr> \<and>
   set (objectKeys [(''t9'', True), (''t2'', True)]) \<inter> set (map t_id [blankTrace, blankTrace\<lparr>t_id := ''t2''\<rparr>])
     = {''t2''}"
  using bulk_action [of "successResult [blankTrace, blankTrace\<lparr>t_id := ''t2''\<rparr>] 101"
      "\<lparr> out_traces = [blankTrace, blankTrace\<lparr>t_id := ''t2''\<rparr>], out_totalCount = 101 \<rparr>"
      "[(''t9'', True), (''t2'', True)]" "''p1''"]
  by (simp add: successResult_def actionButtons_def selectedTraceIds_def currentPageIncludes_def
      objectKeys_def blankTrace_def)

subsection \<open>Pagination\<close>

text \<open>
  Facts about the rounding of doubles: the bounds of the binary logarithm, the rounding of
  a number between two integers, and the two cases in which the page count rounds: the
  conversion of a safe integer, which is exact, and the quotient of two safe integers,
  which stays within the same two integers as the exact quotient.
\<close>

lemma ilog2_bounds:
  assumes "0 < x"
  shows "2 powi ilog2 x \<le> x" and "x < 2 powi (ilog2 x + 1)"
proof -
  have "2 powi ilog2 x \<le> x \<and> x < 2 powi (ilog2 x + 1)"
  proof (cases "1 \<le> x")
    case True
    define n where "n = \<lfloor>x\<rfloor>"
    have n: "0 < n" using True by (simp add: n_def)
    have k: "1 \<le> bitlen n" using n by (simp add: bitlen_alt_def)
    have b: "2 ^ nat (bitlen n - 1) \<le> n" "n < 2 ^ nat (bitlen n)"
      using bitlen_bounds [OF n] by simp_all
    have "(2::real) powi (bitlen n - 1) = 2 ^ nat (bitlen n - 1)"
      using k by (simp add: power_int_def)
    also have "\<dots> = of_int (2 ^ nat (bitlen n - 1))" by simp
    also have "\<dots> \<le> of_int n" using b(1) by (simp only: of_int_le_iff)
    also have "\<dots> \<le> x" by (simp add: n_def)
    finally have lo: "2 powi (bitlen n - 1) \<le> x" .
    have "n + 1 \<le> 2 ^ nat (bitlen n)" using b(2) by simp
    then have "of_int (n + 1) \<le> (of_int (2 ^ nat (bitlen n)) :: real)"
      by (simp only: of_int_le_iff)
    moreover have "x < of_int (n + 1)" by (simp add: n_def)
    ultimately have "x < 2 ^ nat (bitlen n)" by simp
    also have "(2::real) ^ nat (bitlen n) = 2 powi (bitlen n)"
      using k by (simp add: power_int_def)
    finally have hi: "x < 2 powi (bitlen n)" .
    show ?thesis using lo hi True by (simp add: ilog2_def n_def)
  next
    case False
    define m where "m = \<lceil>1 / x\<rceil>"
    have x1: "x < 1" using False by simp
    have inv: "1 < 1 / x" using assms x1 by simp
    have m2: "2 \<le> m" using inv by (simp add: m_def le_ceiling_iff)
    then have m1: "0 < m - 1" by simp
    define k where "k = bitlen (m - 1)"
    have k: "1 \<le> k" using m1 by (simp add: k_def bitlen_alt_def)
    have b: "2 ^ nat (k - 1) \<le> m - 1" "m - 1 < 2 ^ nat k"
      using bitlen_bounds [OF m1] by (simp_all add: k_def)
    have up: "1 / x \<le> of_int m" by (simp add: m_def)
    have "m \<le> 2 ^ nat k" using b(2) by simp
    then have "of_int m \<le> (of_int (2 ^ nat k) :: real)" by (simp only: of_int_le_iff)
    moreover have "(of_int (2 ^ nat k) :: real) = 2 ^ nat k" by simp
    ultimately have "1 / x \<le> 2 ^ nat k" using up by linarith
    then have "1 \<le> 2 ^ nat k * x" using assms by (simp add: pos_divide_le_eq)
    then have "1 / 2 ^ nat k \<le> x" by (simp add: pos_divide_le_eq mult.commute)
    moreover have "(2::real) powi (- k) = 1 / 2 ^ nat k"
      using k by (simp add: power_int_def power_one_over inverse_eq_divide)
    ultimately have lo: "2 powi (- k) \<le> x" by simp
    have "of_int (m - 1) < 1 / x" unfolding m_def using ceiling_correct [of "1 / x"] by simp
    moreover have "(of_int (2 ^ nat (k - 1)) :: real) \<le> of_int (m - 1)"
      using b(1) by (simp only: of_int_le_iff)
    ultimately have "2 ^ nat (k - 1) < 1 / x" by simp
    then have "2 ^ nat (k - 1) * x < 1" using assms by (simp add: pos_less_divide_eq)
    then have "x < 1 / 2 ^ nat (k - 1)" by (simp add: pos_less_divide_eq mult.commute)
    moreover have "(2::real) powi (- k + 1) = 1 / 2 ^ nat (k - 1)"
    proof (cases "k = 1")
      case True
      then show ?thesis by simp
    next
      case False
      with k have "- k + 1 < 0" by simp
      then show ?thesis
        by (simp add: power_int_def power_one_over inverse_eq_divide)
    qed
    ultimately have hi: "x < 2 powi (- k + 1)" by simp
    show ?thesis using lo hi False by (simp add: ilog2_def m_def k_def)
  qed
  then show "2 powi ilog2 x \<le> x" and "x < 2 powi (ilog2 x + 1)" by simp_all
qed

lemma pow2_less_imp_less: "(2::real) powi m < 2 powi n \<Longrightarrow> m < n"
proof (rule ccontr)
  assume a: "(2::real) powi m < 2 powi n" and "\<not> m < n"
  then have "n \<le> m" by simp
  then have "(2::real) powi n \<le> 2 powi m" by (rule power_int_increasing) simp
  with a show False by simp
qed

lemma roundHalfEven_of_int: "roundHalfEven (of_int k) = k"
  by (simp add: roundHalfEven_def)

lemma roundHalfEven_le: "y \<le> of_int k \<Longrightarrow> roundHalfEven y \<le> k"
proof -
  assume a: "y \<le> of_int k"
  show ?thesis
  proof (cases "y = of_int k")
    case True
    then show ?thesis by (simp add: roundHalfEven_of_int)
  next
    case False
    with a have "y < of_int k" by simp
    then have "\<lfloor>y\<rfloor> < k" by (simp add: floor_less_iff)
    then show ?thesis by (simp add: roundHalfEven_def)
  qed
qed

lemma roundHalfEven_gt: "of_int k + 1 / 2 < y \<Longrightarrow> k < roundHalfEven y"
proof -
  assume a: "of_int k + 1 / 2 < y"
  then have "of_int k \<le> y" by simp
  then have f: "k \<le> \<lfloor>y\<rfloor>" by (simp add: le_floor_iff)
  show ?thesis
  proof (cases "k = \<lfloor>y\<rfloor>")
    case True
    with a have "1 / 2 < y - of_int \<lfloor>y\<rfloor>" by simp
    then show ?thesis using True by (simp add: roundHalfEven_def)
  next
    case False
    with f have "k < \<lfloor>y\<rfloor>" by simp
    then show ?thesis by (simp add: roundHalfEven_def)
  qed
qed

lemma roundDouble_pos:
  assumes "0 < x"
  shows "roundDouble x =
    (if (2::real) ^ 1024 \<le> of_int (roundHalfEven (x / 2 powi quantumExponent x)) * 2 powi quantumExponent x
     then PosInfinity
     else Finite (of_int (roundHalfEven (x / 2 powi quantumExponent x)) * 2 powi quantumExponent x))"
  using assms by (simp add: roundDouble_def Let_def)

lemma int_on_grid:
  assumes "e \<le> 0"
  shows "of_int (c * 2 ^ nat (- e)) = (of_int c :: real) / 2 powi e"
proof -
  have "(2::real) powi e = inverse (2 ^ nat (- e))"
    using assms by (cases "e = 0") (simp_all add: power_int_def power_one_over inverse_eq_divide)
  then show ?thesis by (simp add: divide_inverse)
qed

lemma roundDouble_safe_integer:
  assumes "0 < a" "a < 2 ^ 53"
  shows "roundDouble (of_int a) = Finite (of_int a)"
proof -
  define x :: real where "x = of_int a"
  define e where "e = quantumExponent x"
  define s :: real where "s = 2 powi e"
  have x0: "0 < x" using assms by (simp add: x_def)
  have xlt: "x < 2 powi 53"
  proof -
    have "(of_int a :: real) < of_int (2 ^ 53)" using assms(2) by (simp only: of_int_less_iff)
    then show ?thesis by (simp add: x_def)
  qed
  have "2 powi ilog2 x < (2::real) powi 53"
    using ilog2_bounds(1) [OF x0] xlt by (rule le_less_trans)
  then have "ilog2 x < 53" by (rule pow2_less_imp_less)
  then have e0: "e \<le> 0" by (simp add: e_def quantumExponent_def)
  have s0: "0 < s" by (simp add: s_def)
  have y: "x / s = of_int (a * 2 ^ nat (- e))"
    using int_on_grid [OF e0, of a] by (simp add: x_def s_def)
  have n: "roundHalfEven (x / s) = a * 2 ^ nat (- e)"
    unfolding y by (rule roundHalfEven_of_int)
  have m: "of_int (roundHalfEven (x / s)) * s = x"
    unfolding n using int_on_grid [OF e0, of a] s0 by (simp add: x_def s_def)
  have "x < 2 ^ 1024" using xlt by simp
  then show ?thesis
    using roundDouble_pos [OF x0] m by (simp add: x_def [symmetric] e_def s_def)
qed

lemma roundDouble_quotient:
  assumes "0 < a" "a < 2 ^ 53" "0 < b" "b < 2 ^ 53"
  shows "\<exists>m. roundDouble (of_int a / of_int b) = Finite m \<and>
             of_int \<lceil>of_int a / of_int b :: real\<rceil> - 1 < m \<and>
             m \<le> of_int \<lceil>of_int a / of_int b :: real\<rceil>"
proof -
  define x :: real where "x = of_int a / of_int b"
  define L where "L = ilog2 x"
  define e where "e = quantumExponent x"
  define s :: real where "s = 2 powi e"
  define C where "C = \<lceil>x\<rceil>"
  define n where "n = roundHalfEven (x / s)"
  have ra: "0 < (of_int a :: real)" "0 < (of_int b :: real)" using assms by simp_all
  have x0: "0 < x" using ra by (simp add: x_def)
  have a53: "(of_int a :: real) < 2 powi 53"
  proof -
    have "(of_int a :: real) < of_int (2 ^ 53)" using assms(2) by (simp only: of_int_less_iff)
    then show ?thesis by simp
  qed
  have b53: "(of_int b :: real) < 2 powi 53"
  proof -
    have "(of_int b :: real) < of_int (2 ^ 53)" using assms(4) by (simp only: of_int_less_iff)
    then show ?thesis by simp
  qed
  have b1: "1 \<le> (of_int b :: real)" using assms(3) by simp
  have xlt: "x < 2 powi 53"
  proof -
    have "x \<le> of_int a" using b1 ra by (simp add: x_def pos_divide_le_eq)
    then show ?thesis using a53 by simp
  qed
  have xgt: "2 powi (- 53) < x"
  proof -
    have "1 \<le> (of_int a :: real)" using assms(1) by simp
    then have "1 / of_int b \<le> x" using ra by (simp add: x_def divide_right_mono)
    moreover have "1 / 2 powi 53 < 1 / (of_int b :: real)"
      using b53 ra by (simp add: frac_less2)
    moreover have "(2::real) powi (- 53) = 1 / 2 powi 53"
      by (simp add: power_int_minus inverse_eq_divide)
    ultimately show ?thesis by simp
  qed
  have "2 powi L < (2::real) powi 53"
    unfolding L_def using ilog2_bounds(1) [OF x0] xlt by (rule le_less_trans)
  then have "L < 53" by (rule pow2_less_imp_less)
  then have L52: "L \<le> 52" by simp
  have "(2::real) powi (- 53) < 2 powi (L + 1)"
    unfolding L_def using xgt ilog2_bounds(2) [OF x0] by (rule less_trans)
  then have "- 53 < L + 1" by (rule pow2_less_imp_less)
  then have Lge: "- 54 < L" by simp
  have e: "e = L - 52" using Lge by (simp add: e_def quantumExponent_def L_def)
  have e0: "e \<le> 0" using e L52 by simp
  have s0: "0 < s" by (simp add: s_def)
  \<comment> \<open>the divisor is below twice the inverse of the quantum\<close>
  have bs: "of_int b * s < 2"
  proof -
    have "2 powi L \<le> of_int a / (of_int b :: real)"
      using ilog2_bounds(1) [OF x0] by (simp add: L_def x_def)
    then have "2 powi L * of_int b \<le> (of_int a :: real)"
      using ra by (simp add: pos_le_divide_eq)
    then have lt: "2 powi L * of_int b < (2::real) powi 53" using a53 by (rule le_less_trans)
    have "of_int b * s = (2 powi L * of_int b) / 2 powi 52"
      unfolding s_def e by (simp add: power_int_diff)
    also have "\<dots> < 2 powi 53 / 2 powi 52"
      using lt by (rule divide_strict_right_mono) simp
    also have "\<dots> = 2" by simp
    finally show ?thesis .
  qed
  \<comment> \<open>upper bound\<close>
  have xC: "x \<le> of_int C" by (simp add: C_def)
  have Cgrid: "of_int (C * 2 ^ nat (- e)) = (of_int C :: real) / s"
    unfolding s_def by (rule int_on_grid [OF e0])
  have "x / s \<le> of_int (C * 2 ^ nat (- e))"
    unfolding Cgrid using xC s0 by (simp add: divide_right_mono)
  then have nle: "n \<le> C * 2 ^ nat (- e)" unfolding n_def by (rule roundHalfEven_le)
  then have "(of_int n :: real) \<le> of_int (C * 2 ^ nat (- e))" by (simp only: of_int_le_iff)
  then have "(of_int n :: real) \<le> of_int C / s" by (simp only: Cgrid)
  then have mle: "of_int n * s \<le> of_int C" using s0 by (simp add: pos_le_divide_eq)
  \<comment> \<open>lower bound\<close>
  have xq: "of_int (C - 1) < x" unfolding C_def using ceiling_correct [of x] by simp
  have "of_int (b * (C - 1)) < (of_int a :: real)"
  proof -
    have "of_int (C - 1) * of_int b < (of_int a :: real)"
      using xq ra by (simp add: x_def pos_less_divide_eq)
    then show ?thesis by (simp add: mult.commute)
  qed
  then have "b * (C - 1) < a" by (simp only: of_int_less_iff)
  then have "b * (C - 1) + 1 \<le> a" by simp
  then have "(of_int (b * (C - 1) + 1) :: real) \<le> of_int a" by (simp only: of_int_le_iff)
  then have "of_int b * of_int (C - 1) + 1 \<le> (of_int a :: real)" by simp
  then have "(of_int b * of_int (C - 1) + 1) / of_int b \<le> x"
    using ra by (simp add: x_def divide_right_mono)
  then have gap: "of_int (C - 1) + 1 / of_int b \<le> x"
    using ra by (simp add: add_divide_distrib)
  have Qgrid: "of_int ((C - 1) * 2 ^ nat (- e)) = (of_int (C - 1) :: real) / s"
    unfolding s_def by (rule int_on_grid [OF e0])
  have half: "1 / 2 < 1 / (of_int b * s)"
    using bs ra s0 by (simp add: frac_less2)
  have "of_int (C - 1) / s + 1 / (of_int b * s) \<le> x / s"
  proof -
    have "(of_int (C - 1) + 1 / of_int b) / s \<le> x / s"
      using gap s0 by (simp add: divide_right_mono)
    then show ?thesis by (simp add: add_divide_distrib)
  qed
  then have "of_int (C - 1) / s + 1 / 2 < x / s"
    using half by linarith
  then have "of_int ((C - 1) * 2 ^ nat (- e)) + 1 / 2 < x / s"
    by (simp only: Qgrid)
  then have "(C - 1) * 2 ^ nat (- e) < n" unfolding n_def by (rule roundHalfEven_gt)
  then have "(of_int ((C - 1) * 2 ^ nat (- e)) :: real) < of_int n" by (simp only: of_int_less_iff)
  then have "(of_int (C - 1) :: real) / s < of_int n" by (simp only: Qgrid)
  then have mgt: "of_int (C - 1) < of_int n * s" using s0 by (simp add: pos_divide_less_eq)
  \<comment> \<open>no overflow\<close>
  have "of_int C \<le> (2::real) powi 53"
  proof -
    have "x \<le> of_int ((2::int) ^ 53)" using xlt by simp
    then have "C \<le> 2 ^ 53" unfolding C_def by (simp only: ceiling_le_iff)
    then have "(of_int C :: real) \<le> of_int (2 ^ 53)" by (simp only: of_int_le_iff)
    then show ?thesis by simp
  qed
  then have "of_int n * s < 2 ^ 1024" using mle by simp
  then have "roundDouble x = Finite (of_int n * s)"
    using roundDouble_pos [OF x0] by (simp add: n_def s_def e_def)
  then show ?thesis using mle mgt by (simp add: x_def [symmetric] C_def [symmetric])
qed

lemma pageCount_safe:
  assumes "0 \<le> tc" "tc < 2 ^ 53" "0 < ps" "ps < 2 ^ 53" "pageSize pg = Finite (of_int ps)"
  shows "pageCount tc pg = Finite (of_int \<lceil>of_int tc / of_int ps :: real\<rceil>)"
proof (cases "tc = 0")
  case True
  have "jsDivide (Finite 0) (Finite (of_int ps)) = Finite 0"
    using assms(3) by (simp add: jsDivide_def isInfinite_def isZero_def isNegative_def signedZero_def)
  then show ?thesis
    using True assms(5) by (simp add: pageCount_def numberOfBigInt_def roundDouble_def)
next
  case False
  with assms(1) have pos: "0 < tc" by simp
  define C where "C = \<lceil>of_int tc / of_int ps :: real\<rceil>"
  have n: "numberOfBigInt tc = Finite (of_int tc)"
    unfolding numberOfBigInt_def using pos assms(2) by (rule roundDouble_safe_integer)
  obtain m where m: "roundDouble (of_int tc / of_int ps) = Finite m"
    "of_int C - 1 < m" "m \<le> of_int C"
    using roundDouble_quotient [OF pos assms(2) assms(3) assms(4)] unfolding C_def by blast
  have d: "jsDivide (Finite (of_int tc)) (Finite (of_int ps)) = Finite m"
    using pos assms(3) m(1)
    by (simp add: jsDivide_def isInfinite_def isZero_def realOf_def)
  have c: "\<lceil>m\<rceil> = C" using m(2) m(3) by (rule ceiling_unique)
  have "0 < (of_int tc :: real) / of_int ps" using pos assms(3) by simp
  then have "0 < C" unfolding C_def by (simp add: less_ceiling_iff)
  then have "mathCeil (Finite m) = Finite (of_int C)" using c by simp
  then show ?thesis using n d assms(5) by (simp add: pageCount_def C_def)
qed

lemma ceiling_quotient_iff:
  assumes "0 < ps"
  shows "\<lceil>of_int tc / of_int ps :: real\<rceil> = n \<longleftrightarrow> (n - 1) * ps < tc \<and> tc \<le> n * ps"
proof -
  have p: "0 < (of_int ps :: real)" using assms by simp
  have "\<lceil>of_int tc / of_int ps :: real\<rceil> = n \<longleftrightarrow>
      of_int n - 1 < (of_int tc / of_int ps :: real) \<and> (of_int tc / of_int ps :: real) \<le> of_int n"
    by (rule ceiling_eq_iff)
  also have "\<dots> \<longleftrightarrow> (of_int ((n - 1) * ps) :: real) < of_int tc \<and> (of_int tc :: real) \<le> of_int (n * ps)"
    using p by (simp add: pos_less_divide_eq pos_divide_le_eq)
  also have "\<dots> \<longleftrightarrow> (n - 1) * ps < tc \<and> tc \<le> n * ps"
    by (simp only: of_int_less_iff of_int_le_iff)
  finally show ?thesis .
qed

text \<open>
  Claim C6, as amended. For every total count and page size that are integers with
  \<open>0 \<le> totalCount < 2 ^ 53\<close> and \<open>0 < pageSize < 2 ^ 53\<close>, the page count is the ceiling
  of the total count divided by the page size, that is, the one integer \<open>n\<close> with
  \<open>(n - 1) * pageSize < totalCount \<le> n * pageSize\<close>; a total of 101 with a page size of
  50 gives 3 pages; and this is the page count the table receives.
\<close>

theorem page_count:
  assumes "0 \<le> tc" "tc < 2 ^ 53" "0 < ps" "ps < 2 ^ 53" "pageSize pg = Finite (of_int ps)"
  shows "pageCount tc pg = Finite (of_int \<lceil>of_int tc / of_int ps :: real\<rceil>) \<and>
    (\<forall>n::int. pageCount tc pg = Finite (of_int n) \<longleftrightarrow> (n - 1) * ps < tc \<and> tc \<le> n * ps) \<and>
    pageCount 101 \<lparr> pageIndex = Finite 0, pageSize = Finite 50 \<rparr> = Finite 3 \<and>
    (\<forall>t. dataTable fmt h = Inr t \<longrightarrow>
       tbl_pageCount t = pageCount (totalCount (traces h)) (paginationHook h))"
proof -
  have a: "pageCount tc pg = Finite (of_int \<lceil>of_int tc / of_int ps :: real\<rceil>)"
    using assms by (rule pageCount_safe)
  have b: "pageCount tc pg = Finite (of_int n) \<longleftrightarrow> (n - 1) * ps < tc \<and> tc \<le> n * ps" for n
    unfolding a using ceiling_quotient_iff [OF assms(3), of tc n] by simp
  have "pageCount 101 \<lparr> pageIndex = Finite 0, pageSize = Finite 50 \<rparr> =
      Finite (of_int \<lceil>of_int 101 / of_int 50 :: real\<rceil>)"
    by (rule pageCount_safe) simp_all
  then have c: "pageCount 101 \<lparr> pageIndex = Finite 0, pageSize = Finite 50 \<rparr> = Finite 3"
    by simp
  have d: "\<forall>t. dataTable fmt h = Inr t \<longrightarrow>
      tbl_pageCount t = pageCount (totalCount (traces h)) (paginationHook h)"
    by (auto simp: dataTable_def split: sum.splits)
  show ?thesis using a b c d by blast
qed

theorem page_count_witness:
  "(0::int) \<le> 100 \<and> (100::int) < 2 ^ 53 \<and> (0::int) < 50 \<and> (50::int) < 2 ^ 53 \<and>
   pageCount 100 \<lparr> pageIndex = Finite 0, pageSize = Finite 50 \<rparr> = Finite 2 \<and>
   pageCount 101 \<lparr> pageIndex = Finite 0, pageSize = Finite 50 \<rparr> = Finite 3 \<and>
   pageCount 0 \<lparr> pageIndex = Finite 0, pageSize = Finite 50 \<rparr> = Finite 0 \<and>
   (\<exists>t. dataTable (\<lambda>d. ''date'') (someHooks [] [] 50 (successResult [blankTrace] 101)) = Inr t \<and>
        tbl_pageCount t = Finite 3)"
proof -
  have h: "(0::int) \<le> 100" "(100::int) < 2 ^ 53" "(0::int) < 50" "(50::int) < 2 ^ 53"
    "(0::int) \<le> 0"
    "pageSize \<lparr> pageIndex = Finite 0, pageSize = Finite 50 \<rparr> = Finite (of_int 50)"
    by simp_all
  show ?thesis
    using h
      page_count [OF h(1) h(2) h(3) h(4) h(6), of "\<lambda>d. ''date''"
        "someHooks [] [] 50 (successResult [blankTrace] 101)"]
      page_count [OF h(5) _ h(3) h(4) h(6), of "\<lambda>d. ''date''"
        "someHooks [] [] 50 (successResult [blankTrace] 101)"]
    by (simp add: dataTable_def tableData_def someHooks_def successResult_def totalCount_def)
qed

text \<open>
  Claim C6 as first stated, for every total count and every positive page size, fails where
  the arithmetic of doubles rounds. The total count \<open>2 ^ 53 + 1\<close> is not a double and
  becomes \<open>2 ^ 53\<close>, so a page size of 1 gives \<open>2 ^ 53\<close> pages and not \<open>2 ^ 53 + 1\<close>. The
  page size \<^verbatim>\<open>0.3333333333333333\<close> is the double \<open>6004799503160661 / 2 ^ 54\<close>, a little
  above a third; the quotient of 1 by it rounds to 3, so a total count of 1 gives 3 pages
  where the ceiling of the exact quotient is 4.
\<close>

theorem page_count_counterexample:
  "pageCount 9007199254740993 \<lparr> pageIndex = Finite 0, pageSize = Finite 1 \<rparr>
     = Finite 9007199254740992 \<and>
   pageCount 9007199254740993 \<lparr> pageIndex = Finite 0, pageSize = Finite 1 \<rparr>
     \<noteq> Finite (of_int \<lceil>9007199254740993 / 1 :: real\<rceil>) \<and>
   pageCount 1 \<lparr> pageIndex = Finite 0, pageSize = Finite (6004799503160661 / 18014398509481984) \<rparr>
     = Finite 3 \<and>
   pageCount 1 \<lparr> pageIndex = Finite 0, pageSize = Finite (6004799503160661 / 18014398509481984) \<rparr>
     \<noteq> Finite (of_int \<lceil>1 / (6004799503160661 / 18014398509481984) :: real\<rceil>)"
proof -
  have n: "numberOfBigInt 9007199254740993 = Finite 9007199254740992"
    by (simp add: numberOfBigInt_def roundDouble_def quantumExponent_def ilog2_def
        roundHalfEven_def compute_bitlen Let_def)
  have r: "roundDouble (9007199254740992 / 1) = Finite 9007199254740992"
    by (simp add: roundDouble_def quantumExponent_def ilog2_def roundHalfEven_def
        compute_bitlen Let_def)
  have a: "pageCount 9007199254740993 \<lparr> pageIndex = Finite 0, pageSize = Finite 1 \<rparr>
      = Finite 9007199254740992"
    using n r by (simp add: pageCount_def jsDivide_def isInfinite_def isZero_def realOf_def)
  have one: "numberOfBigInt 1 = Finite 1"
    by (simp add: numberOfBigInt_def roundDouble_def quantumExponent_def ilog2_def
        roundHalfEven_def compute_bitlen Let_def)
  have q: "roundDouble (1 / (6004799503160661 / 18014398509481984)) = Finite 3"
    by (simp add: roundDouble_def quantumExponent_def ilog2_def roundHalfEven_def
        compute_bitlen Let_def)
  have b: "pageCount 1 \<lparr> pageIndex = Finite 0,
      pageSize = Finite (6004799503160661 / 18014398509481984) \<rparr> = Finite 3"
    using one q by (simp add: pageCount_def jsDivide_def isInfinite_def isZero_def realOf_def)
  have c: "\<lceil>1 / (6004799503160661 / 18014398509481984) :: real\<rceil> = 4"
    by simp
  show ?thesis using a b c by simp
qed
subsection \<open>The payload of the table\<close>

text \<open>
  Claim C7. For every result of the listing query (a well-formed one: one status, with its
  error or its data), building the payload does not throw and gives the loading payload,
  the error payload with the message of the fetch error, or the success payload with the
  transformed rows, according to the status; the flags of the three payloads exclude one
  another.
\<close>

theorem table_payload:
  assumes "wellFormedResult q"
  shows "\<exists>d. tableData fmt q = Inr d \<and>
    (isLoading q \<longrightarrow>
       d = \<lparr> d_isLoading = True, d_isError = False, d_data = Undefined, d_error = Undefined \<rparr>) \<and>
    (isError q \<longrightarrow>
       (\<exists>e. res_error q = NonNull e \<and>
          d = \<lparr> d_isLoading = False, d_isError = True, d_data = Undefined,
                d_error = Defined (e_message e) \<rparr>)) \<and>
    (isSuccess q \<longrightarrow>
       (\<exists>out. res_data q = Defined out \<and>
          d = \<lparr> d_isLoading = False, d_isError = False,
                d_data = Defined (map (convertToTableRow fmt) (out_traces out)),
                d_error = Undefined \<rparr>)) \<and>
    (d_isLoading d \<longleftrightarrow> isLoading q) \<and> (d_isError d \<longleftrightarrow> isError q) \<and>
    (\<not> d_isLoading d \<and> \<not> d_isError d \<longleftrightarrow> isSuccess q) \<and>
    \<not> (d_isLoading d \<and> d_isError d)"
proof -
  consider (l) "isLoading q" "\<not> isError q" "\<not> isSuccess q"
    | (e) "\<not> isLoading q" "isError q" "\<not> isSuccess q"
    | (s) "\<not> isLoading q" "\<not> isError q" "isSuccess q"
    using assms unfolding wellFormedResult_def by blast
  then show ?thesis
  proof cases
    case l
    then show ?thesis by (simp add: tableData_def)
  next
    case e
    moreover from e assms obtain err where "res_error q = NonNull err"
      unfolding wellFormedResult_def by (cases "res_error q") auto
    ultimately show ?thesis by (simp add: tableData_def)
  next
    case s
    moreover from s assms obtain out where "res_data q = Defined out"
      unfolding wellFormedResult_def by (cases "res_data q") auto
    ultimately show ?thesis by (simp add: tableData_def)
  qed
qed

theorem table_payload_witness:
  "wellFormedResult (errorResult ''boom'') \<and> wellFormedResult loadingResult \<and>
   wellFormedResult (successResult [blankTrace] 1) \<and>
   tableData (\<lambda>d. ''date'') (errorResult ''boom'') =
     Inr \<lparr> d_isLoading = False, d_isError = True, d_data = Undefined, d_error = Defined ''boom'' \<rparr> \<and>
   tableData (\<lambda>d. ''date'') loadingResult =
     Inr \<lparr> d_isLoading = True, d_isError = False, d_data = Undefined, d_error = Undefined \<rparr> \<and>
   tableData (\<lambda>d. ''date'') (successResult [blankTrace] 1) =
     Inr \<lparr> d_isLoading = False, d_isError = False,
           d_data = Defined [convertToTableRow (\<lambda>d. ''date'') blankTrace], d_error = Undefined \<rparr>"
proof -
  have w: "wellFormedResult (errorResult ''boom'')" "wellFormedResult loadingResult"
    "wellFormedResult (successResult [blankTrace] 1)"
    by (simp_all add: wellFormedResult_def errorResult_def loadingResult_def successResult_def)
  show ?thesis
    using w table_payload [OF w(1), of "\<lambda>d. ''date''"] table_payload [OF w(2), of "\<lambda>d. ''date''"]
      table_payload [OF w(3), of "\<lambda>d. ''date''"]
    by (auto simp: errorResult_def loadingResult_def successResult_def)
qed

subsection \<open>The latency cell\<close>

text \<open>
  Claim C8. A row with latency 0 renders the formatted duration of 0 in its latency cell,
  not an empty cell; the cell is empty only for an undefined latency. This holds for the
  row of a record with latency 0 as well.
\<close>

theorem latency_cell:
  "(row_latency row = Defined 0 \<longrightarrow> latencyCell formatIntervalSeconds row = Defined (formatIntervalSeconds 0)) \<and>
   (latencyCell formatIntervalSeconds row = Undefined \<longleftrightarrow> row_latency row = Undefined) \<and>
   (t_latency r = NonNull 0 \<longrightarrow>
      latencyCell formatIntervalSeconds (convertToTableRow fmt r) = Defined (formatIntervalSeconds 0))"
  by (simp add: latencyCell_def convertToTableRow_def split: optional.split)

theorem latency_cell_witness:
  "t_latency (blankTrace\<lparr>t_latency := NonNull 0\<rparr>) = NonNull 0 \<and>
   latencyCell (\<lambda>x. if x = 0 then ''0.00s'' else ''?'')
     (convertToTableRow (\<lambda>d. ''date'') (blankTrace\<lparr>t_latency := NonNull 0\<rparr>)) = Defined ''0.00s'' \<and>
   latencyCell (\<lambda>x. if x = 0 then ''0.00s'' else ''?'')
     (convertToTableRow (\<lambda>d. ''date'') blankTrace) = Undefined"
  using latency_cell [of "convertToTableRow (\<lambda>d. ''date'') blankTrace"
      "\<lambda>x. if x = 0 then ''0.00s'' else ''?''" "blankTrace\<lparr>t_latency := NonNull 0\<rparr>" "\<lambda>d. ''date''"]
  by (simp add: blankTrace_def convertToTableRow_def)

subsection \<open>Filterable columns\<close>

text \<open>
  Claim C9. Every column whose name is in the omission list is absent from the filter column
  definitions given to the toolbar: they are the option-annotated columns whose name is not
  omitted, in their order.
\<close>

theorem omitted_filter_columns:
  "(\<forall>c \<in> set (tb_filterColumnDefinition (dataTableToolbar cols p h)).
      col_name c \<notin> set (omittedFilterOrDefault (p_omittedFilter p))) \<and>
   set (tb_filterColumnDefinition (dataTableToolbar cols p h)) =
     {c \<in> set (cols (traceFilterOptionsData h)).
        col_name c \<notin> set (omittedFilterOrDefault (p_omittedFilter p))} \<and>
   subseq (tb_filterColumnDefinition (dataTableToolbar cols p h)) (cols (traceFilterOptionsData h)) \<and>
   (\<forall>om. p_omittedFilter p = Defined om \<longrightarrow>
      tb_filterColumnDefinition (dataTableToolbar cols p h) =
        filter (\<lambda>c. col_name c \<notin> set om) (cols (traceFilterOptionsData h)))"
  by (auto simp: dataTableToolbar_def transformFilterOptions_def omittedFilterOrDefault_def)

theorem omitted_filter_columns_witness:
  "tb_filterColumnDefinition
     (dataTableToolbar
        (\<lambda>opts. [\<lparr> col_name = ''Name'', col_id = ''name'', col_type = ''stringOptions'' \<rparr>,
                 \<lparr> col_name = ''Session ID'', col_id = ''sessionId'', col_type = ''string'' \<rparr>])
        \<lparr> p_projectId = ''p1'', p_userId = Undefined, p_omittedFilter = Defined [''Session ID''] \<rparr>
        (someHooks [] [] 50 loadingResult))
   = [\<lparr> col_name = ''Name'', col_id = ''name'', col_type = ''stringOptions'' \<rparr>]"
  using omitted_filter_columns [of
      "\<lambda>opts. [\<lparr> col_name = ''Name'', col_id = ''name'', col_type = ''stringOptions'' \<rparr>,
               \<lparr> col_name = ''Session ID'', col_id = ''sessionId'', col_type = ''string'' \<rparr>]"
      "\<lparr> p_projectId = ''p1'', p_userId = Undefined, p_omittedFilter = Defined [''Session ID''] \<rparr>"
      "someHooks [] [] 50 loadingResult"]
  by (simp add: someHooks_def)

end
